theory Spec2Isabelle
  imports Main "HOL-Library.Word"
begin

section \<open>The execution dispatcher of server.js\<close>

text \<open>
  A shallow embedding of \<^verbatim>\<open>executeCode\<close> and \<^verbatim>\<open>cleanup\<close> of
  \<^verbatim>\<open>src/server.js\<close>. The filesystem, the console and the external process are the
  environment of the code: the filesystem is a state that every \<^verbatim>\<open>fs\<close> call reads or
  updates and on which every call leaves an event; the external process is a function of the
  environment that says what \<^verbatim>\<open>exec\<close> hands to its callback.

  One call of \<^verbatim>\<open>executeCode\<close> is followed from its start to the return of the callback:
  between these two points the filesystem changes by the calls of this run and by its
  external process only. Other requests served at the same time are not part of the model.
\<close>

subsection \<open>The path module\<close>

definition sep :: char where
  "sep = CHR ''/''"

text \<open>
  The module is modelled in its POSIX flavour (\<^verbatim>\<open>path.posix\<close>), with \<^verbatim>\<open>'/'\<close> as
  the separator; on a Windows host the module works with the backslash and with drive and
  share names, which are not modelled.

  \<^verbatim>\<open>normalizeString\<close> goes through the segments between separators: empty segments and
  \<^verbatim>\<open>'.'\<close> are dropped, and \<^verbatim>\<open>'..'\<close> takes the segment before it away, or stays when
  there is none to take and the path is relative. The result is kept as the list of the
  segments, which \<open>join_segments\<close> writes with separators between them.
\<close>

fun split_sep :: "string \<Rightarrow> string list" where
  "split_sep [] = [[]]"
| "split_sep (c # cs) =
     (if c = sep then [] # split_sep cs
      else (case split_sep cs of s # ss \<Rightarrow> (c # s) # ss | [] \<Rightarrow> [[c]]))"

definition push_segment :: "bool \<Rightarrow> string list \<Rightarrow> string \<Rightarrow> string list" where
  "push_segment allowAboveRoot res s =
     (if s = [] \<or> s = ''.'' then res
      else if s = ''..'' then
        (if res \<noteq> [] \<and> last res \<noteq> ''..'' then butlast res
         else if allowAboveRoot then res @ [''..''] else res)
      else res @ [s])"

definition normalizeString :: "string \<Rightarrow> bool \<Rightarrow> string list" where
  "normalizeString path allowAboveRoot =
     foldl (push_segment allowAboveRoot) [] (split_sep path)"

fun join_segments :: "string list \<Rightarrow> string" where
  "join_segments [] = []"
| "join_segments [s] = s"
| "join_segments (s # t # ss) = s @ sep # join_segments (t # ss)"

text \<open>\<^verbatim>\<open>path.normalize(path)\<close>\<close>

definition path_normalize :: "string \<Rightarrow> string" where
  "path_normalize path =
     (if path = [] then ''.''
      else let isAbsolute = (hd path = sep);
               trailingSeparator = (last path = sep);
               p = join_segments (normalizeString path (\<not> isAbsolute))
           in if p = [] then (if isAbsolute then ''/'' else if trailingSeparator then ''./'' else ''.'')
              else (if isAbsolute then [sep] else []) @ p @ (if trailingSeparator then [sep] else []))"

text \<open>
  \<^verbatim>\<open>path.join(a, b)\<close>: the arguments that are not empty, with a separator between them,
  normalised.
\<close>

definition path_join :: "string \<Rightarrow> string \<Rightarrow> string" where
  "path_join a b =
     (let joined = (if a = [] then b else if b = [] then a else a @ sep # b)
      in if joined = [] then ''.'' else path_normalize joined)"

text \<open>
  \<^verbatim>\<open>path.dirname(p)\<close>: scanning from the end down to index 1, trailing separators are
  skipped, then the characters of the last segment; the separator found there ends the
  result. When there is none the result is the root or \<^verbatim>\<open>'.'\<close>.
\<close>

definition dirname :: "string \<Rightarrow> string" where
  "dirname p =
     (if p = [] then ''.''
      else let hasRoot = (hd p = sep);
               r = dropWhile (\<lambda>c. c \<noteq> sep) (dropWhile (\<lambda>c. c = sep) (rev (tl p)))
           in if r = [] then (if hasRoot then ''/'' else ''.'')
              else if hasRoot \<and> length r = 1 then ''//''
              else take (length r) p)"

subsection \<open>Random run identities\<close>

text \<open>\<^verbatim>\<open>randomBytes(8).toString('hex')\<close>: two lower-case hexadecimal digits per byte.\<close>

definition hexdigit :: "nat \<Rightarrow> char" where
  "hexdigit n = ''0123456789abcdef'' ! (n mod 16)"

definition hex_byte :: "8 word \<Rightarrow> string" where
  "hex_byte b = [hexdigit (unat b div 16), hexdigit (unat b mod 16)]"

definition toHex :: "8 word list \<Rightarrow> string" where
  "toHex bs = concat (map hex_byte bs)"

subsection \<open>The filesystem, the console and the external process\<close>

datatype event =
    ExistsSync string
  | UnlinkSync string
  | WriteFileSync string
  | Exec string nat
  | ConsoleLog string
  | ConsoleError

text \<open>
  \<open>files\<close> maps the paths that have an entry (a file, a link, a directory) to their
  contents. The other fields say how the calls answer:
  \<^item> \<open>wfault\<close> are the paths on which \<^verbatim>\<open>writeFileSync\<close> throws (no permission, disk
    full), and \<open>wleft\<close> is what such a write leaves at the path: nothing new, or the file it
    had opened, with the part of the content that was written;
  \<^item> \<open>ufault\<close> are the paths on which \<^verbatim>\<open>unlinkSync\<close> throws (no permission, a
    directory in the way);
  \<^item> \<open>sfault\<close> are the paths on which \<^verbatim>\<open>stat\<close> fails (a link that points nowhere, a
    directory that may not be searched): \<^verbatim>\<open>existsSync\<close> answers false for them, entry
    or not.

  \<open>trace\<close> is every call made so far, oldest first.
\<close>

record world =
  files :: "string \<rightharpoonup> string"
  wfault :: "string set"
  wleft :: "string \<rightharpoonup> string"
  ufault :: "string set"
  sfault :: "string set"
  trace :: "event list"

datatype jserror = FsError string | TypeError string

definition emit :: "event \<Rightarrow> world \<Rightarrow> world" where
  "emit ev w = w\<lparr>trace := trace w @ [ev]\<rparr>"

text \<open>
  \<^verbatim>\<open>existsSync\<close> answers true when the path has an entry and \<^verbatim>\<open>stat\<close> succeeds on
  it; it never throws.
\<close>

definition existsSync :: "string \<Rightarrow> world \<Rightarrow> bool \<times> world" where
  "existsSync p w = (files w p \<noteq> None \<and> p \<notin> sfault w, emit (ExistsSync p) w)"

text \<open>\<^verbatim>\<open>unlinkSync\<close> throws on a path that does not exist and on a path it may not remove.\<close>

definition unlinkSync :: "string \<Rightarrow> world \<Rightarrow> (jserror + unit) \<times> world" where
  "unlinkSync p w =
     (let w1 = emit (UnlinkSync p) w
      in if files w p = None \<or> p \<in> ufault w then (Inl (FsError p), w1)
         else (Inr (), w1\<lparr>files := (files w)(p := None)\<rparr>))"

text \<open>
  \<^verbatim>\<open>writeFileSync\<close> creates or replaces the file. When it throws, the path holds what
  \<open>wleft\<close> says, or what it held before.
\<close>

definition writeFileSync :: "string \<Rightarrow> string \<Rightarrow> world \<Rightarrow> (jserror + unit) \<times> world" where
  "writeFileSync p content w =
     (let w1 = emit (WriteFileSync p) w
      in if p \<in> wfault w
         then (Inl (FsError p),
               case wleft w p of
                 None \<Rightarrow> w1
               | Some part \<Rightarrow> w1\<lparr>files := (files w)(p \<mapsto> part)\<rparr>)
         else (Inr (), w1\<lparr>files := (files w)(p \<mapsto> content)\<rparr>))"

text \<open>
  The error object \<^verbatim>\<open>exec\<close> passes to its callback: \<^verbatim>\<open>err.killed\<close> and
  \<^verbatim>\<open>err.message\<close> are the two fields the code reads.
\<close>

record exec_error =
  killed :: bool
  message :: string

text \<open>
  What the external process leaves behind: the three arguments of the callback and the
  files of the working directory once the process is over.
\<close>

record proc_result =
  p_err :: "exec_error option"
  p_stdout :: string
  p_stderr :: string
  p_files :: "string \<rightharpoonup> string"

record env =
  win32 :: bool
  script_dir :: string
  randomBytes :: "8 word list"
  shell :: "string \<Rightarrow> nat \<Rightarrow> (string \<rightharpoonup> string) \<Rightarrow> proc_result"

definition TIMEOUT_MS :: nat where
  "TIMEOUT_MS = 10000"

definition TEMP_DIR :: "env \<Rightarrow> string" where
  "TEMP_DIR E = path_join (script_dir E) ''temp''"

text \<open>
  \<^verbatim>\<open>exec(command, { timeout: TIMEOUT_MS }, callback)\<close>: the process runs, changes the
  files, and the callback receives \<^verbatim>\<open>(err, stdout, stderr)\<close>.
\<close>

definition exec :: "env \<Rightarrow> string \<Rightarrow> nat \<Rightarrow> world \<Rightarrow> proc_result \<times> world" where
  "exec E command timeout w =
     (let r = shell E command timeout (files w)
      in (r, (emit (Exec command timeout) w)\<lparr>files := p_files r\<rparr>))"

subsection \<open>Language definitions\<close>

text \<open>
  One entry of \<^verbatim>\<open>LANGUAGES\<close>. \<open>cmd\<close> takes the platform test
  \<^verbatim>\<open>process.platform === 'win32'\<close> before the arguments \<^verbatim>\<open>(f, dir, name)\<close>.
\<close>

record recipe =
  ext :: string
  cmd :: "bool \<Rightarrow> string \<Rightarrow> string \<Rightarrow> string \<Rightarrow> string"
  filename :: "string option"

definition quoted :: "string \<Rightarrow> string" where
  "quoted s = [CHR 0x22] @ s @ [CHR 0x22]"

definition javascript :: recipe where
  "javascript = \<lparr>ext = ''.js'', cmd = (\<lambda>isWin f dir name. ''node '' @ quoted f), filename = None\<rparr>"

definition python :: recipe where
  "python = \<lparr>ext = ''.py'',
     cmd = (\<lambda>isWin f dir name. if isWin then ''python '' @ quoted f else ''python3 '' @ quoted f),
     filename = None\<rparr>"

definition java :: recipe where
  "java = \<lparr>ext = ''.java'',
     cmd = (\<lambda>isWin f dir name. ''javac '' @ quoted f @ '' && java -cp '' @ quoted dir @ '' Main''),
     filename = Some ''Main.java''\<rparr>"

definition cpp :: recipe where
  "cpp = \<lparr>ext = ''.cpp'',
     cmd = (\<lambda>isWin f dir name.
        let out = path_join dir name
        in ''g++ '' @ quoted f @ '' -o '' @ quoted out @ '' && ''
             @ quoted (out @ (if isWin then ''.exe'' else ''''))),
     filename = None\<rparr>"

definition csharp :: recipe where
  "csharp = \<lparr>ext = ''.cs'',
     cmd = (\<lambda>isWin f dir name.
        let out = path_join dir (name @ ''.exe'')
        in ''mcs '' @ quoted f @ '' -out:'' @ quoted out @ '' && mono '' @ quoted out),
     filename = None\<rparr>"

definition go :: recipe where
  "go = \<lparr>ext = ''.go'', cmd = (\<lambda>isWin f dir name. ''go run '' @ quoted f), filename = None\<rparr>"

definition rust :: recipe where
  "rust = \<lparr>ext = ''.rs'',
     cmd = (\<lambda>isWin f dir name.
        let out = path_join dir name
        in ''rustc '' @ quoted f @ '' -o '' @ quoted out @ '' && ''
             @ quoted (out @ (if isWin then ''.exe'' else ''''))),
     filename = None\<rparr>"

definition php :: recipe where
  "php = \<lparr>ext = ''.php'', cmd = (\<lambda>isWin f dir name. ''php '' @ quoted f), filename = None\<rparr>"

text \<open>
  What \<^verbatim>\<open>LANGUAGES[lang]\<close> can evaluate to. \<^verbatim>\<open>LANGUAGES\<close> is an object literal, so
  a property read that finds no own property goes on to \<^verbatim>\<open>Object.prototype\<close>: there it
  finds the built-in members, which are functions or objects (truthy) with no property
  \<^verbatim>\<open>ext\<close>, \<^verbatim>\<open>cmd\<close> or \<^verbatim>\<open>filename\<close>. A name found nowhere reads as
  \<^verbatim>\<open>undefined\<close>, here \<open>None\<close>.
\<close>

datatype config = Recipe recipe | Builtin string

definition own_languages :: "(string \<times> recipe) list" where
  "own_languages =
     [(''javascript'', javascript), (''python'', python), (''java'', java), (''cpp'', cpp),
      (''csharp'', csharp), (''go'', go), (''rust'', rust), (''php'', php)]"

definition object_prototype :: "string list" where
  "object_prototype =
     [''constructor'', ''__defineGetter__'', ''__defineSetter__'', ''hasOwnProperty'',
      ''__lookupGetter__'', ''__lookupSetter__'', ''isPrototypeOf'', ''propertyIsEnumerable'',
      ''toString'', ''valueOf'', ''__proto__'', ''toLocaleString'']"

definition LANGUAGES :: "string \<Rightarrow> config option" where
  "LANGUAGES lang =
     (case map_of own_languages lang of
        Some r \<Rightarrow> Some (Recipe r)
      | None \<Rightarrow> if lang \<in> set object_prototype then Some (Builtin lang) else None)"

text \<open>The property reads on \<^verbatim>\<open>config\<close>; \<open>None\<close> is \<^verbatim>\<open>undefined\<close>.\<close>

fun config_filename :: "config \<Rightarrow> string option" where
  "config_filename (Recipe r) = filename r"
| "config_filename (Builtin b) = None"

fun config_ext :: "config \<Rightarrow> string option" where
  "config_ext (Recipe r) = Some (ext r)"
| "config_ext (Builtin b) = None"

fun config_cmd :: "config \<Rightarrow> (bool \<Rightarrow> string \<Rightarrow> string \<Rightarrow> string \<Rightarrow> string) option" where
  "config_cmd (Recipe r) = Some (cmd r)"
| "config_cmd (Builtin b) = None"

text \<open>A value inside a template literal: \<^verbatim>\<open>undefined\<close> prints as its name.\<close>

fun interpolate :: "string option \<Rightarrow> string" where
  "interpolate (Some s) = s"
| "interpolate None = ''undefined''"

subsection \<open>The response objects\<close>

text \<open>
  The object handed to \<^verbatim>\<open>callback\<close>: each of the four properties is present
  (\<open>Some\<close>) or absent. The property \<^verbatim>\<open>output\<close> is the field \<open>output_text\<close>.
\<close>

record response =
  success :: "bool option"
  output_text :: "string option"
  error :: "string option"
  stderr :: "string option"

text \<open>How a call of \<^verbatim>\<open>executeCode\<close> ends: the callback is called, or an exception leaves it.\<close>

datatype outcome = Returned response | Threw jserror

subsection \<open>Cleanup\<close>

text \<open>The statement \<^verbatim>\<open>if (fs.existsSync(p)) fs.unlinkSync(p);\<close>\<close>

definition unlink_if_exists :: "string \<Rightarrow> world \<Rightarrow> (jserror + unit) \<times> world" where
  "unlink_if_exists p w =
     (case existsSync p w of
        (True, w1) \<Rightarrow> unlinkSync p w1
      | (False, w1) \<Rightarrow> (Inr (), w1))"

text \<open>The body of the \<^verbatim>\<open>try\<close> block of \<^verbatim>\<open>cleanup\<close>: the first throw ends it.\<close>

definition cleanup_try :: "string \<Rightarrow> string \<Rightarrow> world \<Rightarrow> (jserror + unit) \<times> world" where
  "cleanup_try filePath runId w =
     (case unlink_if_exists filePath w of
        (Inl e, w1) \<Rightarrow> (Inl e, w1)
      | (Inr u, w1) \<Rightarrow>
          let dir = dirname filePath;
              binPath = path_join dir (''bin_'' @ runId)
          in (case unlink_if_exists binPath w1 of
                (Inl e, w2) \<Rightarrow> (Inl e, w2)
              | (Inr u, w2) \<Rightarrow>
                  (case unlink_if_exists (binPath @ ''.exe'') w2 of
                     (Inl e, w3) \<Rightarrow> (Inl e, w3)
                   | (Inr u, w3) \<Rightarrow>
                       let classPath = path_join dir ''Main.class''
                       in unlink_if_exists classPath w3)))"

text \<open>
  Statements of that form one after the other inside one \<^verbatim>\<open>try\<close> block, and what one
  of them does with its path in a given world: the path is \<^emph>\<open>seen\<close> when \<^verbatim>\<open>existsSync\<close>
  answers true, and the statement \<^emph>\<open>raises\<close> when the path is seen and \<^verbatim>\<open>unlinkSync\<close>
  throws on it.
\<close>

fun unlink_each :: "string list \<Rightarrow> world \<Rightarrow> (jserror + unit) \<times> world" where
  "unlink_each [] w = (Inr (), w)"
| "unlink_each (p # ps) w =
     (case unlink_if_exists p w of
        (Inl e, w1) \<Rightarrow> (Inl e, w1)
      | (Inr u, w1) \<Rightarrow> unlink_each ps w1)"

definition seen :: "string \<Rightarrow> world \<Rightarrow> bool" where
  "seen p w = (files w p \<noteq> None \<and> p \<notin> sfault w)"

definition raises :: "string \<Rightarrow> world \<Rightarrow> bool" where
  "raises p w = (seen p w \<and> p \<in> ufault w)"

text \<open>
  \<^verbatim>\<open>cleanup(filePath, runId, ext)\<close>: the third argument is \<^verbatim>\<open>config.ext\<close>, never read.
  Whatever the \<^verbatim>\<open>try\<close> block throws is caught and logged.
\<close>

definition cleanup :: "string \<Rightarrow> string \<Rightarrow> string option \<Rightarrow> world \<Rightarrow> world" where
  "cleanup filePath runId ext_arg w =
     (case cleanup_try filePath runId w of
        (Inl e, w1) \<Rightarrow> emit ConsoleError w1
      | (Inr u, w1) \<Rightarrow> w1)"

subsection \<open>executeCode\<close>

text \<open>\<^verbatim>\<open>stderr || err.message\<close>: the empty string is falsy.\<close>

definition or_else :: "string \<Rightarrow> string \<Rightarrow> string" where
  "or_else a b = (if a \<noteq> [] then a else b)"

definition timeout_response :: response where
  "timeout_response =
     \<lparr>success = None, output_text = None, error = Some ''Execution Timed Out (Max 10s)'',
      stderr = Some ''Process killed.''\<rparr>"

definition failed_response :: "string \<Rightarrow> response" where
  "failed_response text =
     \<lparr>success = Some False, output_text = None, error = Some ''Execution Failed'',
      stderr = Some text\<rparr>"

definition success_response :: "string \<Rightarrow> string \<Rightarrow> response" where
  "success_response out errtext =
     \<lparr>success = Some True, output_text = Some out, error = None, stderr = Some errtext\<rparr>"

definition error_response :: "string \<Rightarrow> response" where
  "error_response msg = \<lparr>success = None, output_text = None, error = Some msg, stderr = None\<rparr>"

text \<open>The callback given to \<^verbatim>\<open>exec\<close>: cleanup first, then the classification.\<close>

definition exec_callback ::
  "string \<Rightarrow> string \<Rightarrow> string option \<Rightarrow> proc_result \<Rightarrow> world \<Rightarrow> outcome \<times> world" where
  "exec_callback filePath runId ext_arg r w =
     (let w1 = cleanup filePath runId ext_arg w
      in case p_err r of
           Some err \<Rightarrow>
             if killed err then (Returned timeout_response, w1)
             else (Returned (failed_response (or_else (p_stderr r) (message err))), w1)
         | None \<Rightarrow> (Returned (success_response (p_stdout r) (p_stderr r)), w1))"

definition runId_of :: "env \<Rightarrow> string" where
  "runId_of E = toHex (randomBytes E)"

text \<open>\<^verbatim>\<open>config.filename || `s_${runId}${config.ext}`\<close>\<close>

definition fileName_of :: "config \<Rightarrow> string \<Rightarrow> string" where
  "fileName_of c runId =
     (case config_filename c of
        Some n \<Rightarrow> if n \<noteq> [] then n else ''s_'' @ runId @ interpolate (config_ext c)
      | None \<Rightarrow> ''s_'' @ runId @ interpolate (config_ext c))"

definition filePath_of :: "env \<Rightarrow> config \<Rightarrow> string" where
  "filePath_of E c = path_join (TEMP_DIR E) (fileName_of c (runId_of E))"

text \<open>
  \<^verbatim>\<open>executeCode(lang, code, callback)\<close>. The result of a call is the object its
  \<^verbatim>\<open>callback\<close> receives, paired with the world at that moment; the callback of
  \<^verbatim>\<open>exec\<close> runs as the last step of the call. A \<^verbatim>\<open>config\<close> without a property
  \<^verbatim>\<open>cmd\<close> makes the call \<^verbatim>\<open>config.cmd(...)\<close> throw a TypeError, which nothing in
  \<^verbatim>\<open>executeCode\<close> catches.
\<close>

definition executeCode :: "env \<Rightarrow> string \<Rightarrow> string \<Rightarrow> world \<Rightarrow> outcome \<times> world" where
  "executeCode E lang code w =
     (case LANGUAGES lang of
        None \<Rightarrow> (Returned (error_response (''Language '' @ [CHR 0x27] @ lang @ [CHR 0x27] @ '' not supported.'')), w)
      | Some c \<Rightarrow>
          let runId = runId_of E;
              filePath = filePath_of E c
          in (case writeFileSync filePath code w of
                (Inl e, w1) \<Rightarrow> (Returned (error_response ''Server failed to write file.''), w1)
              | (Inr u, w1) \<Rightarrow>
                  (case config_cmd c of
                     None \<Rightarrow> (Threw (TypeError ''config.cmd is not a function''), w1)
                   | Some f \<Rightarrow>
                       let command = f (win32 E) filePath (TEMP_DIR E) (''bin_'' @ runId);
                           w2 = emit (ConsoleLog (''EXEC '' @ lang @ '': '' @ runId)) w1
                       in (case exec E command TIMEOUT_MS w2 of
                             (r, w3) \<Rightarrow>
                               exec_callback filePath runId (config_ext c) r w3))))"

text \<open>
  The run of a registered language up to the moment \<^verbatim>\<open>exec\<close> calls back, for a write
  that succeeded: the source file is written, the run is logged, the command of the recipe
  is executed. The first component is what the callback receives, the second the world it
  starts in.
\<close>

definition launch :: "env \<Rightarrow> string \<Rightarrow> recipe \<Rightarrow> string \<Rightarrow> world \<Rightarrow> proc_result \<times> world" where
  "launch E lang r code w =
     exec E (cmd r (win32 E) (filePath_of E (Recipe r)) (TEMP_DIR E) (''bin_'' @ runId_of E))
       TIMEOUT_MS
       (emit (ConsoleLog (''EXEC '' @ lang @ '': '' @ runId_of E))
          (snd (writeFileSync (filePath_of E (Recipe r)) code w)))"

subsection \<open>The result kinds of the specification\<close>

text \<open>
  The specification's data model of a result, and the reading of a response object as one of
  its four kinds: by the properties the object has, as the five object literals of
  \<^verbatim>\<open>executeCode\<close> set them.
\<close>

datatype ExecutionResult =
    Success string string
  | RuntimeOrCompileFailure string
  | Timeout
  | ConfigurationError string

definition as_ExecutionResult :: "response \<Rightarrow> ExecutionResult option" where
  "as_ExecutionResult resp =
     (case (success resp, output_text resp, error resp, stderr resp) of
        (Some True, Some out, None, Some e) \<Rightarrow> Some (Success out e)
      | (Some False, None, Some m, Some e) \<Rightarrow> Some (RuntimeOrCompileFailure e)
      | (None, None, Some m, Some e) \<Rightarrow> Some Timeout
      | (None, None, Some m, None) \<Rightarrow> Some (ConfigurationError m)
      | _ \<Rightarrow> None)"

subsection \<open>Plain names and normalised paths\<close>

text \<open>
  A plain name is a single segment that is a name: the file names the code makes are plain.
  A list of segments is resolved when \<^verbatim>\<open>normalizeString\<close> has nothing left to do on
  it, and a path is normal here when it is written from a resolved list that ends in a plain
  name, as the result of \<^verbatim>\<open>path.join\<close> is when its last argument is one.
\<close>

definition plain :: "string \<Rightarrow> bool" where
  "plain s = (s \<noteq> [] \<and> sep \<notin> set s \<and> s \<noteq> ''.'' \<and> s \<noteq> ''..'')"

definition resolved :: "bool \<Rightarrow> string list \<Rightarrow> bool" where
  "resolved allow xs =
     (\<exists>k rest. xs = replicate k ''..'' @ rest \<and> (\<forall>s\<in>set rest. plain s) \<and> (0 < k \<longrightarrow> allow))"

definition normal_path :: "string \<Rightarrow> bool" where
  "normal_path p =
     (\<exists>abs res t. p = (if abs then [sep] else []) @ join_segments (res @ [t])
        \<and> resolved (\<not> abs) res \<and> plain t)"

subsection \<open>Sample runs\<close>

text \<open>
  A process that ends with the given error object and streams and leaves the given files
  beside those it found.
\<close>

definition sample_shell ::
  "exec_error option \<Rightarrow> string \<Rightarrow> string \<Rightarrow> (string \<rightharpoonup> string)
     \<Rightarrow> string \<Rightarrow> nat \<Rightarrow> (string \<rightharpoonup> string) \<Rightarrow> proc_result" where
  "sample_shell e out errtext left command timeout fs =
     \<lparr>p_err = e, p_stdout = out, p_stderr = errtext, p_files = fs ++ left\<rparr>"

definition sample_env ::
  "(string \<Rightarrow> nat \<Rightarrow> (string \<rightharpoonup> string) \<Rightarrow> proc_result) \<Rightarrow> env" where
  "sample_env sh =
     \<lparr>win32 = False, script_dir = ''/srv/app'',
      randomBytes = [0x01, 0x23, 0x45, 0x67, 0x89, 0xab, 0xcd, 0xef], shell = sh\<rparr>"

definition sample_world :: "string set \<Rightarrow> world" where
  "sample_world unwritable =
     \<lparr>files = Map.empty, wfault = unwritable, wleft = Map.empty, ufault = {}, sfault = {},
      trace = []\<rparr>"


definition sample_python_env :: env where
  "sample_python_env = sample_env (sample_shell None ''hi'' [] Map.empty)"

definition sample_java_world :: world where
  "sample_java_world =
     \<lparr>files = [''/srv/app/temp/Main.class'' \<mapsto> ''cafebabe''], wfault = {}, wleft = Map.empty,
      ufault = {}, sfault = {}, trace = []\<rparr>"

text \<open>
  A working directory in which the source files of the sample runs cannot be unlinked (the
  program replaced them by directories, say) and the class file of a Java run lies.
\<close>

definition sample_locked_world :: world where
  "sample_locked_world =
     \<lparr>files = [''/srv/app/temp/Main.class'' \<mapsto> ''cafebabe''], wfault = {}, wleft = Map.empty,
      ufault = {''/srv/app/temp/s_0123456789abcdef.cpp'', ''/srv/app/temp/s_0123456789abcdef.py''},
      sfault = {}, trace = []\<rparr>"



section \<open>Properties\<close>


subsection \<open>The path module\<close>

lemma split_sep_not_Nil: "split_sep xs \<noteq> []"
  by (induction xs) (auto split: list.split)

lemma split_sep_append: "split_sep (xs @ sep # ys) = split_sep xs @ split_sep ys"
proof (induction xs)
  case Nil
  show ?case by simp
next
  case (Cons c xs)
  obtain s ss where "split_sep xs = s # ss"
    using split_sep_not_Nil [of xs] by (cases "split_sep xs") auto
  then show ?case
    using Cons by simp
qed

lemma split_sep_plain: "sep \<notin> set s \<Longrightarrow> split_sep s = [s]"
  by (induction s) auto

lemma join_segments_snoc: "xs \<noteq> [] \<Longrightarrow> join_segments (xs @ [y]) = join_segments xs @ sep # y"
  by (induction xs rule: join_segments.induct) auto

lemma split_sep_join:
  assumes "xs \<noteq> []" and "\<forall>s\<in>set xs. sep \<notin> set s"
  shows "split_sep (join_segments xs) = xs"
  using assms
proof (induction xs rule: join_segments.induct)
  case 1
  then show ?case by simp
next
  case (2 s)
  then show ?case by (simp add: split_sep_plain)
next
  case (3 s t ss)
  then show ?case
    by (simp add: split_sep_append split_sep_plain)
qed

lemma resolved_Nil: "resolved allow []"
  by (simp add: resolved_def)

lemma resolved_snoc:
  "resolved allow (xs @ [x]) \<longleftrightarrow>
     resolved allow xs \<and> (plain x \<or> x = ''..'' \<and> allow \<and> (\<forall>s\<in>set xs. s = ''..''))"
proof
  assume "resolved allow (xs @ [x])"
  then obtain k rest where e: "xs @ [x] = replicate k ''..'' @ rest"
    and p: "\<forall>s\<in>set rest. plain s" and a: "0 < k \<longrightarrow> allow"
    by (auto simp: resolved_def)
  show "resolved allow xs \<and> (plain x \<or> x = ''..'' \<and> allow \<and> (\<forall>s\<in>set xs. s = ''..''))"
  proof (cases rest rule: rev_cases)
    case Nil
    then have "xs @ [x] = replicate k ''..''" using e by simp
    then obtain j where k: "k = Suc j" by (cases k) auto
    then have "xs @ [x] = replicate j ''..'' @ [''..'']"
      using \<open>xs @ [x] = replicate k ''..''\<close> by (simp add: replicate_append_same)
    then have "xs = replicate j ''..''" and "x = ''..''" by simp_all
    moreover have "resolved allow (replicate j ''..'')"
      unfolding resolved_def using a k by (intro exI [of _ j] exI [of _ "[]"]) auto
    ultimately show ?thesis using a k by auto
  next
    case (snoc rest' y)
    then have "xs = replicate k ''..'' @ rest'" and "x = y"
      using e by simp_all
    moreover have "plain y" and "\<forall>s\<in>set rest'. plain s"
      using p snoc by simp_all
    ultimately show ?thesis
      unfolding resolved_def using a by blast
  qed
next
  assume h: "resolved allow xs \<and> (plain x \<or> x = ''..'' \<and> allow \<and> (\<forall>s\<in>set xs. s = ''..''))"
  then obtain k rest where e: "xs = replicate k ''..'' @ rest"
    and p: "\<forall>s\<in>set rest. plain s" and a: "0 < k \<longrightarrow> allow"
    by (auto simp: resolved_def)
  show "resolved allow (xs @ [x])"
  proof (cases "plain x")
    case True
    then show ?thesis
      unfolding resolved_def e using p a
      by (intro exI [of _ k] exI [of _ "rest @ [x]"]) auto
  next
    case False
    then have x: "x = ''..''" and al: allow and all: "\<forall>s\<in>set xs. s = ''..''"
      using h by auto
    have "replicate (length (xs @ [x])) ''..'' = xs @ [x]"
      by (rule replicate_length_same) (use all x in auto)
    then have "xs @ [x] = replicate (Suc (length xs)) ''..'' @ []"
      by simp
    then show ?thesis
      unfolding resolved_def using al
      by (intro exI [of _ "Suc (length xs)"] exI [of _ "[]"]) simp
  qed
qed

lemma resolved_not_plain_last:
  assumes "resolved allow xs" and "xs \<noteq> []" and "last xs = ''..''"
  shows "\<forall>s\<in>set xs. s = ''..''"
proof -
  obtain ys y where xs: "xs = ys @ [y]"
    using assms(2) by (cases xs rule: rev_cases) auto
  then have "y = ''..''" using assms(3) by simp
  then have "\<not> plain y" by (simp add: plain_def)
  then show ?thesis
    using assms(1) xs \<open>y = ''..''\<close> by (auto simp: resolved_snoc)
qed

lemma resolved_push:
  assumes "resolved allow res" and "sep \<notin> set s"
  shows "resolved allow (push_segment allow res s)"
proof (cases "s = [] \<or> s = ''.''")
  case True
  then show ?thesis using assms(1) by (simp add: push_segment_def)
next
  case False
  note ne = this
  show ?thesis
  proof (cases "s = ''..''")
    case False
    then have "plain s" using ne assms(2) by (simp add: plain_def)
    then show ?thesis
      using assms(1) ne False by (simp add: push_segment_def resolved_snoc)
  next
    case True
    show ?thesis
    proof (cases "res \<noteq> [] \<and> last res \<noteq> ''..''")
      case True
      then obtain ys y where r: "res = ys @ [y]"
        by (cases res rule: rev_cases) auto
      then have "resolved allow ys"
        using assms(1) by (simp add: resolved_snoc)
      then show ?thesis
        using \<open>s = ''..''\<close> True r by (simp add: push_segment_def)
    next
      case False
      then have all: "\<forall>x\<in>set res. x = ''..''"
        using resolved_not_plain_last [OF assms(1)] by (cases "res = []") auto
      show ?thesis
        using \<open>s = ''..''\<close> False all assms(1)
        by (auto simp: push_segment_def resolved_snoc)
    qed
  qed
qed

lemma split_sep_no_sep: "\<forall>s\<in>set (split_sep p). sep \<notin> set s"
  by (induction p) (auto split: list.split)

lemma resolved_foldl:
  assumes "resolved allow acc" and "\<forall>s\<in>set xs. sep \<notin> set s"
  shows "resolved allow (foldl (push_segment allow) acc xs)"
  using assms by (induction xs arbitrary: acc) (simp_all add: resolved_push)

lemma foldl_resolved:
  assumes "resolved allow xs"
  shows "foldl (push_segment allow) [] xs = xs"
  using assms
proof (induction xs rule: rev_induct)
  case Nil
  show ?case by simp
next
  case (snoc x xs)
  then have r: "resolved allow xs"
    and c: "plain x \<or> x = ''..'' \<and> allow \<and> (\<forall>s\<in>set xs. s = ''..'')"
    by (simp_all add: resolved_snoc)
  have "foldl (push_segment allow) [] xs = xs"
    using snoc.IH r by simp
  then have f: "foldl (push_segment allow) [] (xs @ [x]) = push_segment allow xs x"
    by simp
  show ?case
  proof (cases "plain x")
    case True
    then show ?thesis
      unfolding f by (simp add: push_segment_def plain_def)
  next
    case False
    then have "x = ''..''" and allow and "\<forall>s\<in>set xs. s = ''..''"
      using c by auto
    then show ?thesis
      unfolding f by (cases xs rule: rev_cases) (simp_all add: push_segment_def)
  qed
qed


lemma plain_facts:
  assumes "plain n"
  shows "n \<noteq> []" and "sep \<notin> set n" and "last n \<noteq> sep"
proof -
  show 1: "n \<noteq> []" and 2: "sep \<notin> set n"
    using assms by (simp_all add: plain_def)
  show "last n \<noteq> sep"
    using last_in_set [OF 1] 2 by metis
qed

lemma resolved_no_sep:
  assumes "resolved allow xs"
  shows "\<forall>s\<in>set xs. s \<noteq> [] \<and> sep \<notin> set s"
proof -
  obtain k rest where xs: "xs = replicate k ''..'' @ rest" and p: "\<forall>s\<in>set rest. plain s"
    using assms by (auto simp: resolved_def)
  have "s \<noteq> [] \<and> sep \<notin> set s" if "s \<in> set xs" for s
  proof (cases "s \<in> set rest")
    case True
    then show ?thesis using p by (simp add: plain_def)
  next
    case False
    then have "s = ''..''" using that xs by auto
    then show ?thesis by (simp add: sep_def)
  qed
  then show ?thesis by blast
qed

lemma join_segments_hd:
  "xs \<noteq> [] \<Longrightarrow> hd xs \<noteq> [] \<Longrightarrow> hd (join_segments xs) = hd (hd xs)"
  by (induction xs rule: join_segments.induct) auto

lemma join_segments_not_Nil:
  "xs \<noteq> [] \<Longrightarrow> hd xs \<noteq> [] \<Longrightarrow> join_segments xs \<noteq> []"
  by (induction xs rule: join_segments.induct) auto

lemma path_join_normal_path:
  assumes "plain n"
  shows "normal_path (path_join d n)"
proof -
  note n = plain_facts [OF assms]
  define joined where "joined = (if d = [] then n else d @ sep # n)"
  define abs where "abs = (hd joined = sep)"
  define res where "res = foldl (push_segment (\<not> abs)) [] (if d = [] then [] else split_sep d)"
  have j: "joined \<noteq> []" "last joined \<noteq> sep"
    using n by (auto simp: joined_def)
  have s: "split_sep joined = (if d = [] then [] else split_sep d) @ [n]"
    using n by (simp add: joined_def split_sep_append split_sep_plain)
  have r: "resolved (\<not> abs) res"
    unfolding res_def
    by (rule resolved_foldl) (auto simp: resolved_Nil split_sep_no_sep)
  have f: "normalizeString joined (\<not> abs) = res @ [n]"
    using assms by (simp add: normalizeString_def s res_def push_segment_def plain_def)
  have hd: "hd (res @ [n]) \<noteq> []"
    using resolved_no_sep [OF r] n by (cases res) auto
  have ne: "join_segments (res @ [n]) \<noteq> []"
    by (rule join_segments_not_Nil) (use hd in auto)
  have "path_join d n = path_normalize joined"
    using j n by (auto simp: path_join_def joined_def Let_def)
  also have "\<dots> = (if abs then [sep] else []) @ join_segments (res @ [n])"
    using j ne by (simp add: path_normalize_def Let_def abs_def [symmetric] f)
  finally show ?thesis
    unfolding normal_path_def using r assms by blast
qed

lemma normal_path_join:
  assumes "normal_path p" and "plain n"
  shows "path_join p n = p @ sep # n"
proof -
  obtain abs res t where p: "p = (if abs then [sep] else []) @ join_segments (res @ [t])"
    and r: "resolved (\<not> abs) res" and t: "plain t"
    using assms(1) by (auto simp: normal_path_def)
  note n = plain_facts [OF assms(2)]
  have rt: "resolved (\<not> abs) (res @ [t])" and rtn: "resolved (\<not> abs) (res @ [t, n])"
    using r t assms(2) by (simp_all add: resolved_snoc [of _ "res @ [t]" n, simplified] resolved_snoc)
  have ns: "\<forall>s\<in>set (res @ [t]). s \<noteq> [] \<and> sep \<notin> set s"
    by (rule resolved_no_sep [OF rt])
  have hd: "hd (res @ [t]) \<noteq> []" "sep \<notin> set (hd (res @ [t]))"
    using ns by (cases res; simp)+
  have ne: "join_segments (res @ [t]) \<noteq> []"
    by (rule join_segments_not_Nil) (use hd in auto)
  have h: "hd (join_segments (res @ [t])) \<noteq> sep"
    using join_segments_hd [of "res @ [t]"] hd
    by (metis append_is_Nil_conv hd_in_set not_Cons_self2)
  have pne: "p \<noteq> []"
    using ne by (simp add: p)
  have a: "(hd (p @ sep # n) = sep) = abs"
    using h ne by (simp add: p)
  have sp: "split_sep p = (if abs then [[]] else []) @ (res @ [t])"
    using ns by (simp add: p split_sep_join)
  have "foldl (push_segment (\<not> abs)) [] (split_sep (p @ sep # n)) =
      foldl (push_segment (\<not> abs)) [] (res @ [t, n])"
    using n by (simp add: split_sep_append split_sep_plain sp push_segment_def)
  also have "\<dots> = res @ [t, n]"
    by (rule foldl_resolved [OF rtn])
  finally have f: "normalizeString (p @ sep # n) (\<not> abs) = res @ [t, n]"
    by (simp add: normalizeString_def)
  have js: "join_segments (res @ [t, n]) = join_segments (res @ [t]) @ sep # n"
    using join_segments_snoc [of "res @ [t]" n] by simp
  have "path_join p n = path_normalize (p @ sep # n)"
    using pne n by (simp add: path_join_def Let_def)
  also have "\<dots> = (if abs then [sep] else []) @ join_segments (res @ [t, n])"
    using n by (simp add: path_normalize_def Let_def a f js)
  also have "\<dots> = p @ sep # n"
    by (simp add: p js)
  finally show ?thesis .
qed

lemma normal_path_length:
  assumes "normal_path p"
  shows "p \<noteq> []" and "last p \<noteq> sep"
proof -
  obtain abs res t where p: "p = (if abs then [sep] else []) @ join_segments (res @ [t])"
    and r: "resolved (\<not> abs) res" and t: "plain t"
    using assms(1) by (auto simp: normal_path_def)
  note t' = plain_facts(1,3) [OF t]
  have l: "join_segments (res @ [t]) \<noteq> [] \<and> last (join_segments (res @ [t])) = last t"
    using t' by (cases res rule: rev_cases) (simp_all add: join_segments_snoc [of "_ @ [_]" t, simplified])
  show "p \<noteq> []" using l by (simp add: p)
  show "last p \<noteq> sep" using l t' by (simp add: p)
qed


subsection \<open>Run identities and the paths of a run\<close>

lemma hexdigit_not_sep: "hexdigit n \<noteq> sep"
proof -
  have "n mod 16 < length ''0123456789abcdef''" by simp
  then have "hexdigit n \<in> set ''0123456789abcdef''"
    unfolding hexdigit_def by (rule nth_mem)
  moreover have "sep \<notin> set ''0123456789abcdef''"
    by (simp add: sep_def)
  ultimately show ?thesis by metis
qed

lemma toHex_no_sep: "sep \<notin> set (toHex bs)"
  by (induction bs) (auto simp: toHex_def hex_byte_def hexdigit_not_sep [symmetric])

lemma dirname_append:
  assumes "b \<noteq> []" and "sep \<notin> set b" and "a \<noteq> []" and "last a \<noteq> sep"
  shows "dirname (a @ sep # b) = a"
proof -
  from assms(3) obtain x a' where a: "a = x # a'"
    by (cases a) auto
  obtain y ys where rb: "rev b = y # ys"
    using assms(1) by (cases "rev b") auto
  have "y \<in> set b"
    using rb by (metis list.set_intros(1) set_rev)
  then have y: "y \<noteq> sep"
    using assms(2) by auto
  have d1: "dropWhile (\<lambda>c. c = sep) (rev b @ sep # rev a') = rev b @ sep # rev a'"
    using rb y by simp
  have d2: "dropWhile (\<lambda>c. c \<noteq> sep) (rev b @ sep # rev a') = sep # rev a'"
    using assms(2) by (auto simp: dropWhile_append3)
  have r: "\<not> (x = sep \<and> a' = [])"
    using assms(4) a by auto
  show ?thesis
    using r by (auto simp: dirname_def a d1 d2 Let_def)
qed

lemma TEMP_DIR_normal: "normal_path (TEMP_DIR E)"
  unfolding TEMP_DIR_def by (rule path_join_normal_path) (simp add: plain_def sep_def)

lemma TEMP_DIR_join:
  assumes "plain n"
  shows "path_join (TEMP_DIR E) n = TEMP_DIR E @ sep # n"
  by (rule normal_path_join [OF TEMP_DIR_normal assms])

lemma dirname_TEMP_DIR:
  assumes "plain n"
  shows "dirname (path_join (TEMP_DIR E) n) = TEMP_DIR E"
  unfolding TEMP_DIR_join [OF assms]
  by (rule dirname_append [OF plain_facts(1,2) [OF assms] normal_path_length [OF TEMP_DIR_normal]])

lemma LANGUAGES_Recipe:
  assumes "LANGUAGES lang = Some (Recipe r)"
  shows "r \<in> {javascript, python, java, cpp, csharp, go, rust, php}"
  using assms
  by (auto simp: LANGUAGES_def own_languages_def split: if_splits option.splits)

lemma fileName_of_Recipe:
  assumes "LANGUAGES lang = Some (Recipe r)" and "sep \<notin> set rid"
  shows "plain (fileName_of (Recipe r) rid)"
  using LANGUAGES_Recipe [OF assms(1)] assms(2)
  by (auto simp: plain_def fileName_of_def sep_def javascript_def python_def java_def cpp_def
        csharp_def go_def rust_def php_def)

lemma dirname_filePath_of:
  assumes "LANGUAGES lang = Some (Recipe r)"
  shows "dirname (filePath_of E (Recipe r)) = TEMP_DIR E"
  unfolding filePath_of_def
  using fileName_of_Recipe [OF assms, of "runId_of E"] toHex_no_sep [of "randomBytes E"]
  by (simp add: dirname_TEMP_DIR runId_of_def)



subsection \<open>One removal after the other\<close>

lemma unlink_if_exists_step:
  "fst (unlink_if_exists p w) = (if raises p w then Inl (FsError p) else Inr ())"
  "files (snd (unlink_if_exists p w)) =
     (if seen p w \<and> p \<notin> ufault w then (files w)(p := None) else files w)"
  "trace (snd (unlink_if_exists p w)) =
     trace w @ ExistsSync p # (if seen p w then [UnlinkSync p] else [])"
  "ufault (snd (unlink_if_exists p w)) = ufault w"
  "sfault (snd (unlink_if_exists p w)) = sfault w"
  by (auto simp: unlink_if_exists_def existsSync_def unlinkSync_def emit_def seen_def
        raises_def Let_def split: bool.splits)

lemma unlink_if_exists_after:
  assumes "\<not> raises p w"
  shows "raises q (snd (unlink_if_exists p w)) = raises q w"
    and "seen q (snd (unlink_if_exists p w)) = (seen q w \<and> q \<noteq> p)"
  using assms
  by (auto simp: seen_def raises_def unlink_if_exists_step)

lemma unlink_each_Cons:
  "unlink_each (p # ps) w =
     (if raises p w then (Inl (FsError p), snd (unlink_if_exists p w))
      else unlink_each ps (snd (unlink_if_exists p w)))"
proof (cases "unlink_if_exists p w")
  case (Pair a w1)
  then have "a = (if raises p w then Inl (FsError p) else Inr ())"
    using unlink_if_exists_step(1) [of p w] by simp
  then show ?thesis
    using Pair by simp
qed

lemma unlink_each_faults:
  "ufault (snd (unlink_each ps w)) = ufault w"
  "sfault (snd (unlink_each ps w)) = sfault w"
  by (induction ps arbitrary: w) (simp_all add: unlink_each_Cons unlink_if_exists_step del: unlink_each.simps(2))

lemma unlink_each_result:
  "fst (unlink_each ps w) = Inr () \<longleftrightarrow> (\<forall>p\<in>set ps. \<not> raises p w)"
proof (induction ps arbitrary: w)
  case Nil
  show ?case by simp
next
  case (Cons p ps)
  show ?case
    by (simp add: unlink_each_Cons Cons.IH unlink_if_exists_after(1) del: unlink_each.simps(2))
qed

text \<open>
  The paths whose statement is reached and does not raise are those before the first one that
  raises. Such a path is gone afterwards when it was seen; every other path is as before.
\<close>

lemma unlink_each_files:
  "files (snd (unlink_each ps w)) q =
     (if q \<in> set (takeWhile (\<lambda>p. \<not> raises p w) ps) \<and> seen q w then None else files w q)"
proof (induction ps arbitrary: w)
  case Nil
  show ?case by simp
next
  case (Cons p ps)
  show ?case
  proof (cases "raises p w")
    case True
    then show ?thesis
      by (simp add: unlink_each_Cons unlink_if_exists_step raises_def del: unlink_each.simps(2))
  next
    case False
    have r: "(\<lambda>p'. \<not> raises p' (snd (unlink_if_exists p w))) = (\<lambda>p'. \<not> raises p' w)"
      by (simp add: unlink_if_exists_after(1) [OF False])
    have f: "files (snd (unlink_if_exists p w)) =
        (if seen p w then (files w)(p := None) else files w)"
      using False by (auto simp: unlink_if_exists_step(2) raises_def)
    have s: "files w p = None" if "\<not> seen p w" "seen q w" "q = p"
      using that by simp
    have "files (snd (unlink_each (p # ps) w)) q =
        (if q \<in> set (takeWhile (\<lambda>p. \<not> raises p w) ps) \<and> seen q w \<and> q \<noteq> p then None
         else if seen p w then ((files w)(p := None)) q else files w q)"
      using False
      by (simp add: unlink_each_Cons Cons.IH r unlink_if_exists_after(2) [OF False] f
            del: unlink_each.simps(2))
    also have "\<dots> =
        (if q \<in> set (takeWhile (\<lambda>p. \<not> raises p w) (p # ps)) \<and> seen q w then None
         else files w q)"
      using False by (cases "q = p"; cases "seen p w"; simp)
    finally show ?thesis .
  qed
qed

text \<open>
  The events: no error is logged inside the \<^verbatim>\<open>try\<close> block, and a path with no raising
  path before it is tested, and unlinked when it is seen.
\<close>

lemma unlink_each_trace:
  "\<exists>evs. trace (snd (unlink_each ps w)) = trace w @ evs
     \<and> ConsoleError \<notin> set evs
     \<and> (\<forall>pre q post. ps = pre @ q # post \<and> (\<forall>p\<in>set pre. \<not> raises p w)
           \<longrightarrow> ExistsSync q \<in> set evs \<and> (seen q w \<longrightarrow> UnlinkSync q \<in> set evs))"
proof (induction ps arbitrary: w)
  case Nil
  show ?case by simp
next
  case (Cons p ps)
  let ?w1 = "snd (unlink_if_exists p w)"
  let ?step = "ExistsSync p # (if seen p w then [UnlinkSync p] else [])"
  show ?case
  proof (cases "raises p w")
    case True
    have "trace (snd (unlink_each (p # ps) w)) = trace w @ ?step"
      using True by (simp add: unlink_each_Cons unlink_if_exists_step del: unlink_each.simps(2))
    moreover have "ConsoleError \<notin> set ?step"
      by simp
    moreover have "ExistsSync q \<in> set ?step \<and> (seen q w \<longrightarrow> UnlinkSync q \<in> set ?step)"
      if "p # ps = pre @ q # post" and "\<forall>p\<in>set pre. \<not> raises p w" for pre q post
      using that True by (cases pre) auto
    ultimately show ?thesis
      by blast
  next
    case False
    obtain evs where e: "trace (snd (unlink_each ps ?w1)) = trace ?w1 @ evs"
      and c: "ConsoleError \<notin> set evs"
      and a: "\<And>pre q post. ps = pre @ q # post \<Longrightarrow> (\<forall>p\<in>set pre. \<not> raises p ?w1)
           \<Longrightarrow> ExistsSync q \<in> set evs \<and> (seen q ?w1 \<longrightarrow> UnlinkSync q \<in> set evs)"
      using Cons.IH [of ?w1] by blast
    have t: "trace (snd (unlink_each (p # ps) w)) = trace w @ (?step @ evs)"
      using False by (simp add: unlink_each_Cons e unlink_if_exists_step del: unlink_each.simps(2))
    have n: "ConsoleError \<notin> set (?step @ evs)"
      using c by simp
    have m: "ExistsSync q \<in> set (?step @ evs) \<and> (seen q w \<longrightarrow> UnlinkSync q \<in> set (?step @ evs))"
      if d: "p # ps = pre @ q # post" and h: "\<forall>p\<in>set pre. \<not> raises p w" for pre q post
    proof (cases pre)
      case Nil
      then show ?thesis using d by auto
    next
      case (Cons x pre')
      then have x: "x = p" and 1: "ps = pre' @ q # post" and 3: "\<forall>p\<in>set pre'. \<not> raises p w"
        using d h by simp_all
      have 2: "\<forall>p\<in>set pre'. \<not> raises p ?w1"
        using 3 by (simp add: unlink_if_exists_after(1) [OF False])
      from a [OF 1 2] show ?thesis
        by (auto simp: unlink_if_exists_after(2) [OF False])
    qed
    show ?thesis
      using t n m by blast
  qed
qed

lemma cleanup_try_unlink_each:
  "cleanup_try filePath runId w =
     unlink_each
       [filePath,
        path_join (dirname filePath) (''bin_'' @ runId),
        path_join (dirname filePath) (''bin_'' @ runId) @ ''.exe'',
        path_join (dirname filePath) ''Main.class''] w"
  by (simp add: cleanup_try_def Let_def split: prod.split sum.split)

text \<open>
  \<^verbatim>\<open>cleanup\<close> as a whole, on its four paths \<open>p1\<close> to \<open>p4\<close>: it logs an error when one
  of the statements raises, and only then.
\<close>

lemma cleanup_unlink_each:
  assumes "ps = [filePath, path_join (dirname filePath) (''bin_'' @ runId),
                 path_join (dirname filePath) (''bin_'' @ runId) @ ''.exe'',
                 path_join (dirname filePath) ''Main.class'']"
  shows "cleanup filePath runId e w =
     (if fst (unlink_each ps w) = Inr () then snd (unlink_each ps w)
      else emit ConsoleError (snd (unlink_each ps w)))"
proof (cases "unlink_each ps w")
  case (Pair a w1)
  then show ?thesis
    unfolding cleanup_def cleanup_try_unlink_each assms [symmetric]
    by (cases a) simp_all
qed

lemma cleanup_files:
  assumes "ps = [filePath, path_join (dirname filePath) (''bin_'' @ runId),
                 path_join (dirname filePath) (''bin_'' @ runId) @ ''.exe'',
                 path_join (dirname filePath) ''Main.class'']"
  shows "files (cleanup filePath runId e w) q =
     (if q \<in> set (takeWhile (\<lambda>p. \<not> raises p w) ps) \<and> seen q w then None else files w q)"
proof -
  have "files (cleanup filePath runId e w) = files (snd (unlink_each ps w))"
    by (simp add: cleanup_unlink_each [OF assms] emit_def)
  then show ?thesis
    by (simp add: unlink_each_files)
qed

lemma cleanup_trace:
  assumes "ps = [filePath, path_join (dirname filePath) (''bin_'' @ runId),
                 path_join (dirname filePath) (''bin_'' @ runId) @ ''.exe'',
                 path_join (dirname filePath) ''Main.class'']"
  shows "\<exists>evs. trace (cleanup filePath runId e w) = trace w @ evs
     \<and> (ConsoleError \<in> set evs \<longleftrightarrow> (\<exists>p\<in>set ps. raises p w))
     \<and> (\<forall>pre q post. ps = pre @ q # post \<and> (\<forall>p\<in>set pre. \<not> raises p w)
           \<longrightarrow> ExistsSync q \<in> set evs \<and> (seen q w \<longrightarrow> UnlinkSync q \<in> set evs))"
proof -
  obtain evs where t: "trace (snd (unlink_each ps w)) = trace w @ evs"
    and c: "ConsoleError \<notin> set evs"
    and a: "\<forall>pre q post. ps = pre @ q # post \<and> (\<forall>p\<in>set pre. \<not> raises p w)
           \<longrightarrow> ExistsSync q \<in> set evs \<and> (seen q w \<longrightarrow> UnlinkSync q \<in> set evs)"
    using unlink_each_trace [of ps w] by blast
  show ?thesis
  proof (cases "\<exists>p\<in>set ps. raises p w")
    case True
    then have "fst (unlink_each ps w) \<noteq> Inr ()"
      by (simp add: unlink_each_result)
    then have "cleanup filePath runId e w = emit ConsoleError (snd (unlink_each ps w))"
      by (simp add: cleanup_unlink_each [OF assms])
    then have "trace (cleanup filePath runId e w) = trace w @ (evs @ [ConsoleError])"
      by (simp add: emit_def t)
    moreover have "ConsoleError \<in> set (evs @ [ConsoleError]) \<longleftrightarrow> (\<exists>p\<in>set ps. raises p w)"
      using True by simp
    moreover have "\<forall>pre q post. ps = pre @ q # post \<and> (\<forall>p\<in>set pre. \<not> raises p w)
           \<longrightarrow> ExistsSync q \<in> set (evs @ [ConsoleError])
               \<and> (seen q w \<longrightarrow> UnlinkSync q \<in> set (evs @ [ConsoleError]))"
      using a by simp
    ultimately show ?thesis
      by blast
  next
    case False
    then have "fst (unlink_each ps w) = Inr ()"
      by (simp add: unlink_each_result)
    then have "cleanup filePath runId e w = snd (unlink_each ps w)"
      by (simp add: cleanup_unlink_each [OF assms])
    then have "trace (cleanup filePath runId e w) = trace w @ evs"
      by (simp add: t)
    moreover have "ConsoleError \<in> set evs \<longleftrightarrow> (\<exists>p\<in>set ps. raises p w)"
      using False c by simp
    ultimately show ?thesis
      using a by blast
  qed
qed

subsection \<open>The run up to the callback\<close>

lemma launch_world:
  "files (snd (launch E lang r code w)) = p_files (fst (launch E lang r code w))"
  "ufault (snd (launch E lang r code w)) = ufault w"
  "sfault (snd (launch E lang r code w)) = sfault w"
  "wfault (snd (launch E lang r code w)) = wfault w"
  by (simp_all add: launch_def exec_def writeFileSync_def emit_def Let_def split: option.split)

lemma launch_trace:
  "trace (snd (launch E lang r code w)) =
     trace w @ [WriteFileSync (filePath_of E (Recipe r)),
                ConsoleLog (''EXEC '' @ lang @ '': '' @ runId_of E),
                Exec (cmd r (win32 E) (filePath_of E (Recipe r)) (TEMP_DIR E) (''bin_'' @ runId_of E))
                  TIMEOUT_MS]"
  by (simp add: launch_def exec_def writeFileSync_def emit_def Let_def split: option.split)

lemma executeCode_launch:
  assumes "LANGUAGES lang = Some (Recipe r)" and "filePath_of E (Recipe r) \<notin> wfault w"
  shows "executeCode E lang code w =
           exec_callback (filePath_of E (Recipe r)) (runId_of E) (Some (ext r))
             (fst (launch E lang r code w)) (snd (launch E lang r code w))"
  using assms
  by (simp add: executeCode_def launch_def writeFileSync_def Let_def split: prod.split)

lemma exec_callback_fst:
  "fst (exec_callback filePath runId e res w) =
     Returned (case p_err res of
                 Some err \<Rightarrow>
                   if killed err then timeout_response
                   else failed_response (or_else (p_stderr res) (message err))
               | None \<Rightarrow> success_response (p_stdout res) (p_stderr res))"
  by (simp add: exec_callback_def Let_def split: option.split)

lemma exec_callback_snd:
  "snd (exec_callback filePath runId e res w) = cleanup filePath runId e w"
  by (simp add: exec_callback_def Let_def split: option.split)

lemma sample_runId: "runId_of (sample_env sh) = ''0123456789abcdef''"
  by (simp add: runId_of_def sample_env_def toHex_def hex_byte_def hexdigit_def)

lemma sample_TEMP_DIR: "TEMP_DIR (sample_env sh) = ''/srv/app/temp''"
  by (simp add: TEMP_DIR_def path_join_def path_normalize_def normalizeString_def
        push_segment_def sep_def sample_env_def)

lemma sample_join:
  assumes "plain n"
  shows "path_join ''/srv/app/temp'' n = ''/srv/app/temp/'' @ n"
  using TEMP_DIR_join [OF assms, of "sample_env undefined"]
  by (simp add: sample_TEMP_DIR sep_def)

lemma sample_python: "LANGUAGES ''python'' = Some (Recipe python)"
  by (simp add: LANGUAGES_def own_languages_def)

lemma sample_filePath:
  "filePath_of (sample_env sh) (Recipe python) = ''/srv/app/temp/s_0123456789abcdef.py''"
  by (simp add: filePath_of_def fileName_of_def sample_TEMP_DIR sample_runId sample_join
        plain_def sep_def python_def)

lemma sample_launch:
  "p_err (fst (launch (sample_env (sample_shell e out errtext left)) lang r code w)) = e"
  "p_stdout (fst (launch (sample_env (sample_shell e out errtext left)) lang r code w)) = out"
  "p_stderr (fst (launch (sample_env (sample_shell e out errtext left)) lang r code w)) = errtext"
  by (simp_all add: launch_def exec_def sample_env_def sample_shell_def)

lemma sample_launch_files:
  assumes "filePath_of (sample_env (sample_shell e out errtext left)) (Recipe r) \<notin> wfault w"
  shows "p_files (fst (launch (sample_env (sample_shell e out errtext left)) lang r code w)) =
           (files w)(filePath_of (sample_env (sample_shell e out errtext left)) (Recipe r) \<mapsto> code)
             ++ left"
  using assms
  by (simp add: launch_def exec_def sample_env_def sample_shell_def writeFileSync_def emit_def
        Let_def)

subsection \<open>Classification of the exit\<close>





text \<open>
  C9. When the process of a registered language was killed by the timeout, the response is the
  constant \<^verbatim>\<open>{ error: 'Execution Timed Out (Max 10s)', stderr: 'Process killed.' }\<close>: it
  has no \<^verbatim>\<open>output\<close> property, and its \<^verbatim>\<open>stderr\<close> is the fixed text, whatever the
  process wrote to its two streams.
\<close>

theorem timeout_discards_streams:
  assumes "LANGUAGES lang = Some (Recipe r)"
    and "filePath_of E (Recipe r) \<notin> wfault w"
    and "p_err (fst (launch E lang r code w)) = Some err"
    and "killed err"
  shows "fst (executeCode E lang code w) =
           Returned \<lparr>success = None, output_text = None,
                     error = Some ''Execution Timed Out (Max 10s)'',
                     stderr = Some ''Process killed.''\<rparr>"
  using assms(3,4)
  by (simp add: executeCode_launch [OF assms(1,2)] exec_callback_fst timeout_response_def)

theorem timeout_discards_streams_witness:
  "p_stdout (fst (launch
      (sample_env (sample_shell (Some \<lparr>killed = True, message = ''Command failed''\<rparr>)
         ''tick tick'' ''still running'' Map.empty))
      ''python'' python ''while True: pass'' (sample_world {}))) = ''tick tick''
   \<and> p_stderr (fst (launch
      (sample_env (sample_shell (Some \<lparr>killed = True, message = ''Command failed''\<rparr>)
         ''tick tick'' ''still running'' Map.empty))
      ''python'' python ''while True: pass'' (sample_world {}))) = ''still running''
   \<and> fst (executeCode
      (sample_env (sample_shell (Some \<lparr>killed = True, message = ''Command failed''\<rparr>)
         ''tick tick'' ''still running'' Map.empty))
      ''python'' ''while True: pass'' (sample_world {})) =
     Returned \<lparr>success = None, output_text = None,
               error = Some ''Execution Timed Out (Max 10s)'',
               stderr = Some ''Process killed.''\<rparr>"
proof -
  have w: "filePath_of (sample_env sh) (Recipe python) \<notin> wfault (sample_world {})" for sh
    by (simp add: sample_world_def)
  have k: "killed \<lparr>killed = True, message = ''Command failed''\<rparr>"
    by simp
  have a: "p_err (fst (launch
             (sample_env (sample_shell (Some \<lparr>killed = True, message = ''Command failed''\<rparr>)
                ''tick tick'' ''still running'' Map.empty))
             ''python'' python ''while True: pass'' (sample_world {}))) =
           Some \<lparr>killed = True, message = ''Command failed''\<rparr>"
    by (simp add: sample_launch)
  show ?thesis
    using timeout_discards_streams [OF sample_python w a k]
    by (simp add: sample_launch)
qed

text \<open>
  C3. When the process of a registered language was killed by the timeout, the response is of
  the kind Timeout, which has no payload: it is the constant timeout response. A run of any
  registered language that ends with an error of another cause gives a response of the kind
  RuntimeOrCompileFailure, and that response is never the one of the timed-out run.
\<close>

theorem timeout_kind_distinct_from_failure:
  assumes "LANGUAGES lang = Some (Recipe r)"
    and "filePath_of E (Recipe r) \<notin> wfault w"
    and "p_err (fst (launch E lang r code w)) = Some err"
    and "killed err"
    and "LANGUAGES lang' = Some (Recipe r')"
    and "filePath_of E' (Recipe r') \<notin> wfault w'"
    and "p_err (fst (launch E' lang' r' code' w')) = Some err'"
    and "\<not> killed err'"
  shows "\<exists>resp' diag.
           fst (executeCode E lang code w) = Returned timeout_response
         \<and> as_ExecutionResult timeout_response = Some Timeout
         \<and> fst (executeCode E' lang' code' w') = Returned resp'
         \<and> as_ExecutionResult resp' = Some (RuntimeOrCompileFailure diag)
         \<and> resp' \<noteq> timeout_response"
proof -
  have 1: "fst (executeCode E lang code w) = Returned timeout_response"
    using assms(3,4) by (simp add: executeCode_launch [OF assms(1,2)] exec_callback_fst)
  have 2: "as_ExecutionResult timeout_response = Some Timeout"
    by (simp add: as_ExecutionResult_def timeout_response_def)
  define diag where "diag = or_else (p_stderr (fst (launch E' lang' r' code' w'))) (message err')"
  have 3: "fst (executeCode E' lang' code' w') = Returned (failed_response diag)"
    using assms(7,8) by (simp add: executeCode_launch [OF assms(5,6)] exec_callback_fst diag_def)
  have 4: "as_ExecutionResult (failed_response diag) = Some (RuntimeOrCompileFailure diag)"
    by (simp add: as_ExecutionResult_def failed_response_def)
  have 5: "failed_response diag \<noteq> timeout_response"
    by (simp add: failed_response_def timeout_response_def)
  from 1 2 3 4 5 show ?thesis by blast
qed

theorem timeout_kind_distinct_from_failure_witness:
  "\<exists>resp' diag.
     fst (executeCode
        (sample_env (sample_shell (Some \<lparr>killed = True, message = ''Command failed''\<rparr>)
           ''tick'' [] Map.empty))
        ''python'' ''while True: pass'' (sample_world {})) = Returned timeout_response
   \<and> as_ExecutionResult timeout_response = Some Timeout
   \<and> fst (executeCode
        (sample_env (sample_shell (Some \<lparr>killed = False, message = ''Command failed''\<rparr>)
           [] ''SyntaxError'' Map.empty))
        ''python'' ''print('' (sample_world {})) = Returned resp'
   \<and> as_ExecutionResult resp' = Some (RuntimeOrCompileFailure diag)
   \<and> resp' \<noteq> timeout_response"
proof -
  have w: "filePath_of (sample_env sh) (Recipe python) \<notin> wfault (sample_world {})" for sh
    by (simp add: sample_world_def)
  have k: "killed \<lparr>killed = True, message = ''Command failed''\<rparr>"
    by simp
  have e: "\<not> killed \<lparr>killed = False, message = ''Command failed''\<rparr>"
    by simp
  have a: "p_err (fst (launch
             (sample_env (sample_shell (Some \<lparr>killed = True, message = ''Command failed''\<rparr>)
                ''tick'' [] Map.empty))
             ''python'' python ''while True: pass'' (sample_world {}))) =
           Some \<lparr>killed = True, message = ''Command failed''\<rparr>"
    by (simp add: sample_launch)
  have b: "p_err (fst (launch
             (sample_env (sample_shell (Some \<lparr>killed = False, message = ''Command failed''\<rparr>)
                [] ''SyntaxError'' Map.empty))
             ''python'' python ''print('' (sample_world {}))) =
           Some \<lparr>killed = False, message = ''Command failed''\<rparr>"
    by (simp add: sample_launch)
  show ?thesis
    by (rule timeout_kind_distinct_from_failure [OF sample_python w a k sample_python w b e])
qed


subsection \<open>A write that fails\<close>

text \<open>
  C7, as it is stated, names a message the code never gives: in this run
  \<^verbatim>\<open>writeFileSync\<close> throws on the source path, and the response is a ConfigurationError
  whose message is \<^verbatim>\<open>'Server failed to write file.'\<close>, not the one of the claim.
\<close>

theorem write_failure_is_configuration_error_counterexample:
  "LANGUAGES ''python'' = Some (Recipe python)
   \<and> filePath_of sample_python_env (Recipe python)
       \<in> wfault (sample_world {''/srv/app/temp/s_0123456789abcdef.py''})
   \<and> fst (executeCode sample_python_env ''python'' ''print(1)''
            (sample_world {''/srv/app/temp/s_0123456789abcdef.py''})) =
       Returned \<lparr>success = None, output_text = None,
                 error = Some ''Server failed to write file.'', stderr = None\<rparr>
   \<and> as_ExecutionResult \<lparr>success = None, output_text = None,
         error = Some ''Server failed to write file.'', stderr = None\<rparr>
       \<noteq> Some (ConfigurationError ''failed to write source'')"
proof -
  have f: "filePath_of sample_python_env (Recipe python)
             \<in> wfault (sample_world {''/srv/app/temp/s_0123456789abcdef.py''})"
    unfolding sample_python_env_def by (simp add: sample_filePath sample_world_def)
  have r: "fst (executeCode sample_python_env ''python'' ''print(1)''
            (sample_world {''/srv/app/temp/s_0123456789abcdef.py''})) =
       Returned \<lparr>success = None, output_text = None,
                 error = Some ''Server failed to write file.'', stderr = None\<rparr>"
    using f by (simp add: executeCode_def sample_python writeFileSync_def error_response_def Let_def)
  have k: "as_ExecutionResult \<lparr>success = None, output_text = None,
         error = Some ''Server failed to write file.'', stderr = None\<rparr>
       \<noteq> Some (ConfigurationError ''failed to write source'')"
    by (simp add: as_ExecutionResult_def)
  show ?thesis
    by (intro conjI sample_python f r k)
qed

text \<open>
  C7, amended. When \<^verbatim>\<open>writeFileSync\<close> throws on the source path, the response is
  \<^verbatim>\<open>{ error: 'Server failed to write file.' }\<close>, a ConfigurationError with that message,
  and the call ends there: the only event of the call is the attempted write, and no process
  is executed.
\<close>

theorem write_failure_is_configuration_error:
  assumes "LANGUAGES lang = Some c"
    and "filePath_of E c \<in> wfault w"
  shows "(let resp = \<lparr>success = None, output_text = None,
                      error = Some ''Server failed to write file.'', stderr = None\<rparr>
          in fst (executeCode E lang code w) = Returned resp
             \<and> as_ExecutionResult resp = Some (ConfigurationError ''Server failed to write file.'')
             \<and> trace (snd (executeCode E lang code w)) = trace w @ [WriteFileSync (filePath_of E c)])"
  using assms
  by (simp add: executeCode_def writeFileSync_def emit_def error_response_def
        as_ExecutionResult_def Let_def split: option.split)

theorem write_failure_is_configuration_error_witness:
  "(let resp = \<lparr>success = None, output_text = None,
                error = Some ''Server failed to write file.'', stderr = None\<rparr>
    in fst (executeCode (sample_env (sample_shell None ''hi'' [] Map.empty)) ''python''
              ''print(1)'' (sample_world {''/srv/app/temp/s_0123456789abcdef.py''})) = Returned resp
       \<and> as_ExecutionResult resp = Some (ConfigurationError ''Server failed to write file.'')
       \<and> trace (snd (executeCode (sample_env (sample_shell None ''hi'' [] Map.empty)) ''python''
              ''print(1)'' (sample_world {''/srv/app/temp/s_0123456789abcdef.py''}))) =
           trace (sample_world {''/srv/app/temp/s_0123456789abcdef.py''})
             @ [WriteFileSync (filePath_of (sample_env (sample_shell None ''hi'' [] Map.empty))
                  (Recipe python))])"
proof -
  have f: "filePath_of (sample_env (sample_shell None ''hi'' [] Map.empty)) (Recipe python)
             \<in> wfault (sample_world {''/srv/app/temp/s_0123456789abcdef.py''})"
    by (simp add: sample_filePath sample_world_def)
  show ?thesis
    by (rule write_failure_is_configuration_error [OF sample_python f])
qed

subsection \<open>Cleanup\<close>

text \<open>
  The four paths of \<^verbatim>\<open>cleanup\<close> in the run of a registered language, and the world the
  response is handed over in: the one \<^verbatim>\<open>cleanup\<close> makes of the world the callback
  starts in.
\<close>

lemma cleanup_paths:
  assumes "LANGUAGES lang = Some (Recipe r)"
  shows "[filePath_of E (Recipe r),
          path_join (TEMP_DIR E) (''bin_'' @ runId_of E),
          path_join (TEMP_DIR E) (''bin_'' @ runId_of E) @ ''.exe'',
          path_join (TEMP_DIR E) ''Main.class''] =
         [filePath_of E (Recipe r),
          path_join (dirname (filePath_of E (Recipe r))) (''bin_'' @ runId_of E),
          path_join (dirname (filePath_of E (Recipe r))) (''bin_'' @ runId_of E) @ ''.exe'',
          path_join (dirname (filePath_of E (Recipe r))) ''Main.class'']"
  by (simp add: dirname_filePath_of [OF assms])

lemma executeCode_world:
  assumes "LANGUAGES lang = Some (Recipe r)" and "filePath_of E (Recipe r) \<notin> wfault w"
  shows "snd (executeCode E lang code w) =
           cleanup (filePath_of E (Recipe r)) (runId_of E) (Some (ext r))
             (snd (launch E lang r code w))"
    and "\<exists>resp. executeCode E lang code w =
           (Returned resp,
            cleanup (filePath_of E (Recipe r)) (runId_of E) (Some (ext r))
              (snd (launch E lang r code w)))"
proof -
  show s: "snd (executeCode E lang code w) =
           cleanup (filePath_of E (Recipe r)) (runId_of E) (Some (ext r))
             (snd (launch E lang r code w))"
    by (simp add: executeCode_launch [OF assms] exec_callback_snd)
  obtain resp where r: "fst (executeCode E lang code w) = Returned resp"
    by (simp add: executeCode_launch [OF assms] exec_callback_fst)
  have "executeCode E lang code w =
           (Returned resp,
            cleanup (filePath_of E (Recipe r)) (runId_of E) (Some (ext r))
              (snd (launch E lang r code w)))"
    by (rule prod_eqI) (simp_all add: r s)
  then show "\<exists>resp. executeCode E lang code w =
           (Returned resp,
            cleanup (filePath_of E (Recipe r)) (runId_of E) (Some (ext r))
              (snd (launch E lang r code w)))"
    by (rule exI)
qed

lemma executeCode_files:
  assumes "LANGUAGES lang = Some (Recipe r)" and "filePath_of E (Recipe r) \<notin> wfault w"
  shows "files (snd (executeCode E lang code w)) q =
     (if q \<in> set (takeWhile (\<lambda>p. \<not> raises p (snd (launch E lang r code w)))
                    [filePath_of E (Recipe r),
                     path_join (TEMP_DIR E) (''bin_'' @ runId_of E),
                     path_join (TEMP_DIR E) (''bin_'' @ runId_of E) @ ''.exe'',
                     path_join (TEMP_DIR E) ''Main.class''])
         \<and> seen q (snd (launch E lang r code w))
      then None else files (snd (launch E lang r code w)) q)"
  unfolding executeCode_world(1) [OF assms]
  by (rule cleanup_files [OF cleanup_paths [OF assms(1)]])

lemma executeCode_trace:
  assumes "LANGUAGES lang = Some (Recipe r)" and "filePath_of E (Recipe r) \<notin> wfault w"
    and "ps = [filePath_of E (Recipe r),
               path_join (TEMP_DIR E) (''bin_'' @ runId_of E),
               path_join (TEMP_DIR E) (''bin_'' @ runId_of E) @ ''.exe'',
               path_join (TEMP_DIR E) ''Main.class'']"
  shows "\<exists>evs. trace (snd (executeCode E lang code w)) = trace (snd (launch E lang r code w)) @ evs
     \<and> (ConsoleError \<in> set evs \<longleftrightarrow> (\<exists>p\<in>set ps. raises p (snd (launch E lang r code w))))
     \<and> (\<forall>pre q post. ps = pre @ q # post
             \<and> (\<forall>p\<in>set pre. \<not> raises p (snd (launch E lang r code w)))
           \<longrightarrow> ExistsSync q \<in> set evs
               \<and> (seen q (snd (launch E lang r code w)) \<longrightarrow> UnlinkSync q \<in> set evs))"
  unfolding executeCode_world(1) [OF assms(1,2)]
  by (rule cleanup_trace) (unfold assms(3), rule cleanup_paths [OF assms(1)])

lemma cleanup_first_raises:
  assumes "raises p1 w"
  shows "cleanup p1 runId e w = emit ConsoleError (emit (UnlinkSync p1) (emit (ExistsSync p1) w))"
  using assms
  by (simp add: cleanup_def cleanup_try_def unlink_if_exists_def existsSync_def unlinkSync_def
        emit_def raises_def seen_def Let_def)

text \<open>What is gone after four removals, for each of the four paths in its turn.\<close>

lemma four_removals:
  assumes "\<And>q. fs q = (if q \<in> set (takeWhile (\<lambda>p. \<not> raises p w) [p1, p2, p3, p4]) \<and> seen q w
                         then None else files w q)"
  shows "fs p1 = None \<longleftrightarrow> files w p1 = None \<or> p1 \<notin> sfault w \<and> p1 \<notin> ufault w"
    and "\<not> raises p1 w \<Longrightarrow>
           (fs p2 = None \<longleftrightarrow> files w p2 = None \<or> p2 \<notin> sfault w \<and> p2 \<notin> ufault w)"
    and "\<not> raises p1 w \<Longrightarrow> \<not> raises p2 w \<Longrightarrow>
           (fs p3 = None \<longleftrightarrow> files w p3 = None \<or> p3 \<notin> sfault w \<and> p3 \<notin> ufault w)"
    and "\<not> raises p1 w \<Longrightarrow> \<not> raises p2 w \<Longrightarrow> \<not> raises p3 w \<Longrightarrow>
           (fs p4 = None \<longleftrightarrow> files w p4 = None \<or> p4 \<notin> sfault w \<and> p4 \<notin> ufault w)"
    and "files w q = None \<Longrightarrow> fs q = None"
  unfolding assms by (auto simp: raises_def seen_def)



lemma sample_python_paths:
  "filePath_of sample_python_env (Recipe python) = ''/srv/app/temp/s_0123456789abcdef.py''"
  "path_join (TEMP_DIR sample_python_env) (''bin_'' @ runId_of sample_python_env) =
     ''/srv/app/temp/bin_0123456789abcdef''"
  "path_join (TEMP_DIR sample_python_env) ''Main.class'' = ''/srv/app/temp/Main.class''"
  by (simp_all add: sample_python_env_def filePath_of_def fileName_of_def sample_TEMP_DIR
        sample_runId sample_join plain_def sep_def python_def)



lemma sample_python_locked:
  "filePath_of sample_python_env (Recipe python) \<notin> wfault sample_locked_world"
  "p_files (fst (launch sample_python_env ''python'' python ''print(1)'' sample_locked_world)) =
      [''/srv/app/temp/Main.class'' \<mapsto> ''cafebabe'',
       ''/srv/app/temp/s_0123456789abcdef.py'' \<mapsto> ''print(1)'']"
  "raises (filePath_of sample_python_env (Recipe python))
     (snd (launch sample_python_env ''python'' python ''print(1)'' sample_locked_world))"
proof -
  show w: "filePath_of sample_python_env (Recipe python) \<notin> wfault sample_locked_world"
    by (simp add: sample_locked_world_def)
  show f: "p_files (fst (launch sample_python_env ''python'' python ''print(1)'' sample_locked_world)) =
      [''/srv/app/temp/Main.class'' \<mapsto> ''cafebabe'',
       ''/srv/app/temp/s_0123456789abcdef.py'' \<mapsto> ''print(1)'']"
    using w sample_launch_files [of None "''hi''" "[]" Map.empty python
        sample_locked_world "''python''" "''print(1)''"]
    unfolding sample_python_paths sample_python_env_def [symmetric]
    by (simp add: sample_locked_world_def)
  show "raises (filePath_of sample_python_env (Recipe python))
     (snd (launch sample_python_env ''python'' python ''print(1)'' sample_locked_world))"
    unfolding raises_def seen_def launch_world f sample_python_paths
    by (simp add: sample_locked_world_def)
qed






text \<open>
  C10, as it is stated, fails where a removal before it raises: in this Python run
  \<^verbatim>\<open>unlinkSync\<close> throws on the source path, so cleanup never comes to \<^verbatim>\<open>Main.class\<close>:
  it neither tests for the file nor unlinks it, and the file is still there when the response
  is handed over.
\<close>

theorem cleanup_deletes_Main_class_of_any_run_counterexample:
  "LANGUAGES ''python'' = Some (Recipe python)
   \<and> filePath_of sample_python_env (Recipe python) \<notin> wfault sample_locked_world
   \<and> ExistsSync ''/srv/app/temp/Main.class''
       \<notin> set (trace (snd (executeCode sample_python_env ''python'' ''print(1)'' sample_locked_world)))
   \<and> UnlinkSync ''/srv/app/temp/Main.class''
       \<notin> set (trace (snd (executeCode sample_python_env ''python'' ''print(1)'' sample_locked_world)))
   \<and> files (snd (executeCode sample_python_env ''python'' ''print(1)'' sample_locked_world))
       ''/srv/app/temp/Main.class'' = Some ''cafebabe''"
proof -
  note w = sample_python_locked(1) and f = sample_python_locked(2) and r = sample_python_locked(3)
  have t: "trace (snd (executeCode sample_python_env ''python'' ''print(1)'' sample_locked_world)) =
      [WriteFileSync ''/srv/app/temp/s_0123456789abcdef.py'',
       ConsoleLog (''EXEC '' @ ''python'' @ '': '' @ runId_of sample_python_env),
       Exec (cmd python (win32 sample_python_env) ''/srv/app/temp/s_0123456789abcdef.py''
               (TEMP_DIR sample_python_env) (''bin_'' @ runId_of sample_python_env)) TIMEOUT_MS,
       ExistsSync ''/srv/app/temp/s_0123456789abcdef.py'',
       UnlinkSync ''/srv/app/temp/s_0123456789abcdef.py'',
       ConsoleError]"
    unfolding executeCode_world(1) [OF sample_python w] cleanup_first_raises [OF r]
    by (simp add: emit_def launch_trace sample_python_paths sample_locked_world_def)
  have 1: "ExistsSync ''/srv/app/temp/Main.class''
       \<notin> set (trace (snd (executeCode sample_python_env ''python'' ''print(1)'' sample_locked_world)))"
    unfolding t by simp
  have 2: "UnlinkSync ''/srv/app/temp/Main.class''
       \<notin> set (trace (snd (executeCode sample_python_env ''python'' ''print(1)'' sample_locked_world)))"
    unfolding t by simp
  have "files (snd (executeCode sample_python_env ''python'' ''print(1)'' sample_locked_world)) q =
      files (snd (launch sample_python_env ''python'' python ''print(1)'' sample_locked_world)) q" for q
    unfolding executeCode_files [OF sample_python w] using r by simp
  then have 3: "files (snd (executeCode sample_python_env ''python'' ''print(1)'' sample_locked_world))
       ''/srv/app/temp/Main.class'' = Some ''cafebabe''"
    unfolding launch_world f by simp
  show ?thesis
    by (intro conjI sample_python w 1 2 3)
qed

text \<open>
  C10, amended. The removal of \<^verbatim>\<open>Main.class\<close> does not depend on the language of the
  run: the third argument of \<^verbatim>\<open>cleanup\<close> is never read, and in the run of any registered
  language in which none of the three removals before it raises, cleanup tests for
  \<^verbatim>\<open>Main.class\<close> in the working directory and calls \<^verbatim>\<open>unlinkSync\<close> on it when
  \<^verbatim>\<open>existsSync\<close> reports it, whoever wrote it. The path is gone when the response is
  handed over exactly when it had no entry, or \<^verbatim>\<open>stat\<close> succeeds on it and
  \<^verbatim>\<open>unlinkSync\<close> does not throw on it.
\<close>

theorem cleanup_deletes_Main_class_of_any_run:
  assumes "LANGUAGES lang = Some (Recipe r)"
    and "filePath_of E (Recipe r) \<notin> wfault w"
    and "\<not> raises (filePath_of E (Recipe r)) (snd (launch E lang r code w))"
    and "\<not> raises (path_join (TEMP_DIR E) (''bin_'' @ runId_of E)) (snd (launch E lang r code w))"
    and "\<not> raises (path_join (TEMP_DIR E) (''bin_'' @ runId_of E) @ ''.exe'')
           (snd (launch E lang r code w))"
  shows "(let w3 = snd (launch E lang r code w);
              w' = snd (executeCode E lang code w);
              cls = path_join (TEMP_DIR E) ''Main.class''
          in (\<exists>evs. trace w' = trace w3 @ evs
                 \<and> ExistsSync cls \<in> set evs
                 \<and> (seen cls w3 \<longrightarrow> UnlinkSync cls \<in> set evs))
           \<and> (files w' cls = None \<longleftrightarrow>
                files w3 cls = None \<or> cls \<notin> sfault w3 \<and> cls \<notin> ufault w3)
           \<and> cleanup (filePath_of E (Recipe r)) (runId_of E) (Some (ext r)) =
               cleanup (filePath_of E (Recipe r)) (runId_of E) None)"
proof -
  note f = four_removals(4) [of "files (snd (executeCode E lang code w))",
      OF executeCode_files [OF assms(1,2)] assms(3,4,5)]
  obtain evs where t: "trace (snd (executeCode E lang code w)) =
        trace (snd (launch E lang r code w)) @ evs"
    and a: "\<And>pre q post.
        [filePath_of E (Recipe r),
         path_join (TEMP_DIR E) (''bin_'' @ runId_of E),
         path_join (TEMP_DIR E) (''bin_'' @ runId_of E) @ ''.exe'',
         path_join (TEMP_DIR E) ''Main.class''] = pre @ q # post
        \<Longrightarrow> (\<forall>p\<in>set pre. \<not> raises p (snd (launch E lang r code w)))
        \<Longrightarrow> ExistsSync q \<in> set evs
            \<and> (seen q (snd (launch E lang r code w)) \<longrightarrow> UnlinkSync q \<in> set evs)"
    using executeCode_trace [OF assms(1,2) refl, of code] by blast
  have "ExistsSync (path_join (TEMP_DIR E) ''Main.class'') \<in> set evs
      \<and> (seen (path_join (TEMP_DIR E) ''Main.class'') (snd (launch E lang r code w))
           \<longrightarrow> UnlinkSync (path_join (TEMP_DIR E) ''Main.class'') \<in> set evs)"
    by (rule a [of "[filePath_of E (Recipe r),
         path_join (TEMP_DIR E) (''bin_'' @ runId_of E),
         path_join (TEMP_DIR E) (''bin_'' @ runId_of E) @ ''.exe'']" _ "[]"])
      (use assms(3,4,5) in simp_all)
  then have e: "\<exists>evs. trace (snd (executeCode E lang code w)) =
          trace (snd (launch E lang r code w)) @ evs
       \<and> ExistsSync (path_join (TEMP_DIR E) ''Main.class'') \<in> set evs
       \<and> (seen (path_join (TEMP_DIR E) ''Main.class'') (snd (launch E lang r code w))
           \<longrightarrow> UnlinkSync (path_join (TEMP_DIR E) ''Main.class'') \<in> set evs)"
    using t by blast
  have i: "cleanup (filePath_of E (Recipe r)) (runId_of E) (Some (ext r)) =
             cleanup (filePath_of E (Recipe r)) (runId_of E) None"
    by (rule ext) (simp add: cleanup_def)
  show ?thesis
    unfolding Let_def by (intro conjI e f i)
qed

lemma sample_python_java:
  "filePath_of sample_python_env (Recipe python) \<notin> wfault sample_java_world"
  "p_files (fst (launch sample_python_env ''python'' python ''print(1)'' sample_java_world)) =
      [''/srv/app/temp/Main.class'' \<mapsto> ''cafebabe'',
       ''/srv/app/temp/s_0123456789abcdef.py'' \<mapsto> ''print(1)'']"
  "\<not> raises p (snd (launch sample_python_env ''python'' python ''print(1)'' sample_java_world))"
  "sfault (snd (launch sample_python_env ''python'' python ''print(1)'' sample_java_world)) = {}"
  "ufault (snd (launch sample_python_env ''python'' python ''print(1)'' sample_java_world)) = {}"
proof -
  show w: "filePath_of sample_python_env (Recipe python) \<notin> wfault sample_java_world"
    by (simp add: sample_java_world_def)
  show "p_files (fst (launch sample_python_env ''python'' python ''print(1)'' sample_java_world)) =
      [''/srv/app/temp/Main.class'' \<mapsto> ''cafebabe'',
       ''/srv/app/temp/s_0123456789abcdef.py'' \<mapsto> ''print(1)'']"
    using w sample_launch_files [of None "''hi''" "[]" Map.empty python
        sample_java_world "''python''" "''print(1)''"]
    unfolding sample_python_paths sample_python_env_def [symmetric]
    by (simp add: sample_java_world_def)
  show "\<not> raises p (snd (launch sample_python_env ''python'' python ''print(1)'' sample_java_world))"
    unfolding raises_def launch_world by (simp add: sample_java_world_def)
  show "sfault (snd (launch sample_python_env ''python'' python ''print(1)'' sample_java_world)) = {}"
    unfolding launch_world by (simp add: sample_java_world_def)
  show "ufault (snd (launch sample_python_env ''python'' python ''print(1)'' sample_java_world)) = {}"
    unfolding launch_world by (simp add: sample_java_world_def)
qed

theorem cleanup_deletes_Main_class_of_any_run_witness:
  "files sample_java_world ''/srv/app/temp/Main.class'' = Some ''cafebabe''
   \<and> path_join (TEMP_DIR sample_python_env) ''Main.class'' = ''/srv/app/temp/Main.class''
   \<and> seen (path_join (TEMP_DIR sample_python_env) ''Main.class'')
       (snd (launch sample_python_env ''python'' python ''print(1)'' sample_java_world))
   \<and> (\<exists>evs.
         trace (snd (executeCode sample_python_env ''python'' ''print(1)'' sample_java_world)) =
           trace (snd (launch sample_python_env ''python'' python ''print(1)'' sample_java_world)) @ evs
       \<and> ExistsSync (path_join (TEMP_DIR sample_python_env) ''Main.class'') \<in> set evs
       \<and> UnlinkSync (path_join (TEMP_DIR sample_python_env) ''Main.class'') \<in> set evs)
   \<and> files (snd (executeCode sample_python_env ''python'' ''print(1)'' sample_java_world))
       (path_join (TEMP_DIR sample_python_env) ''Main.class'') = None
   \<and> cleanup (filePath_of sample_python_env (Recipe python)) (runId_of sample_python_env)
       (Some (ext python)) =
     cleanup (filePath_of sample_python_env (Recipe python)) (runId_of sample_python_env) None"
proof -
  note w = sample_python_java(1) and f = sample_python_java(2) and r = sample_python_java(3)
    and s = sample_python_java(4) and u = sample_python_java(5)
  have c: "seen (path_join (TEMP_DIR sample_python_env) ''Main.class'')
       (snd (launch sample_python_env ''python'' python ''print(1)'' sample_java_world))"
    unfolding seen_def launch_world f sample_python_paths
    by (simp add: sample_java_world_def)
  have 1: "files sample_java_world ''/srv/app/temp/Main.class'' = Some ''cafebabe''"
    by (simp add: sample_java_world_def)
  show ?thesis
    using cleanup_deletes_Main_class_of_any_run
        [OF sample_python w r r r, unfolded Let_def]
      c 1 sample_python_paths(3)
    by (simp add: s u)
qed

subsection \<open>Names that are not registered\<close>

lemma executeCode_unknown_language:
  assumes "LANGUAGES lang = None"
  shows "executeCode E lang code w =
           (Returned \<lparr>success = None, output_text = None,
                      error = Some (''Language '' @ [CHR 0x27] @ lang @ [CHR 0x27] @ '' not supported.''),
                      stderr = None\<rparr>, w)"
  using assms by (simp add: executeCode_def error_response_def)

lemma LANGUAGES_inherited:
  assumes "lang \<in> set object_prototype"
  shows "map_of own_languages lang = None" and "LANGUAGES lang = Some (Builtin lang)"
proof -
  show 1: "map_of own_languages lang = None"
    using assms unfolding object_prototype_def own_languages_def
    by (elim disjE | simp)+
  show "LANGUAGES lang = Some (Builtin lang)"
    using assms by (simp add: LANGUAGES_def 1)
qed

lemma executeCode_inherited_name:
  assumes "lang \<in> set object_prototype"
    and "filePath_of E (Builtin lang) \<notin> wfault w"
  shows "fst (executeCode E lang code w) = Threw (TypeError ''config.cmd is not a function'')"
    and "files (snd (executeCode E lang code w)) =
           (files w)(path_join (TEMP_DIR E) (''s_'' @ runId_of E @ ''undefined'') \<mapsto> code)"
    and "trace (snd (executeCode E lang code w)) =
           trace w @ [WriteFileSync (path_join (TEMP_DIR E) (''s_'' @ runId_of E @ ''undefined''))]"
  using assms(2)
  by (simp_all add: executeCode_def LANGUAGES_inherited(2) [OF assms(1)] writeFileSync_def
        emit_def filePath_of_def fileName_of_def Let_def)

lemma response_independent_of_unlink_faults:
  assumes "LANGUAGES lang = Some (Recipe r)"
    and "filePath_of E (Recipe r) \<notin> wfault w"
  shows "fst (executeCode E lang code (w\<lparr>ufault := U\<rparr>)) = fst (executeCode E lang code w)"
proof -
  have 1: "filePath_of E (Recipe r) \<notin> wfault (w\<lparr>ufault := U\<rparr>)"
    using assms(2) by simp
  have 2: "fst (launch E lang r code (w\<lparr>ufault := U\<rparr>)) = fst (launch E lang r code w)"
    by (simp add: launch_def exec_def writeFileSync_def emit_def Let_def split: option.split)
  show ?thesis
    by (simp add: executeCode_launch [OF assms(1) 1] executeCode_launch [OF assms(1,2)]
          exec_callback_fst 2)
qed

text \<open>
  C6. The name \<^verbatim>\<open>constructor\<close> has no recipe in \<^verbatim>\<open>LANGUAGES\<close>, yet the property read
  finds the member inherited from \<^verbatim>\<open>Object.prototype\<close>, the test \<^verbatim>\<open>!config\<close> fails, and
  the call goes on: it writes the file \<^verbatim>\<open>s_<runId>undefined\<close> and then throws on
  \<^verbatim>\<open>config.cmd\<close>. No response of the kind ConfigurationError is given and the filesystem is
  touched.
\<close>

theorem unsupported_language_constructor:
  "map_of own_languages ''constructor'' = None
   \<and> fst (executeCode sample_python_env ''constructor'' ''x'' (sample_world {})) =
       Threw (TypeError ''config.cmd is not a function'')
   \<and> files (snd (executeCode sample_python_env ''constructor'' ''x'' (sample_world {})))
       ''/srv/app/temp/s_0123456789abcdefundefined'' = Some ''x''
   \<and> trace (snd (executeCode sample_python_env ''constructor'' ''x'' (sample_world {}))) =
       [WriteFileSync ''/srv/app/temp/s_0123456789abcdefundefined'']"
proof -
  have m: "''constructor'' \<in> set object_prototype"
    by (simp add: object_prototype_def)
  have w: "filePath_of sample_python_env (Builtin ''constructor'') \<notin> wfault (sample_world {})"
    by (simp add: sample_world_def)
  have p: "path_join (TEMP_DIR sample_python_env) (''s_'' @ runId_of sample_python_env @ ''undefined'') =
      ''/srv/app/temp/s_0123456789abcdefundefined''"
    by (simp add: sample_python_env_def sample_TEMP_DIR sample_runId sample_join plain_def sep_def)
  note r = executeCode_inherited_name [OF m w, of "''x''", unfolded p]
  have f: "files (snd (executeCode sample_python_env ''constructor'' ''x'' (sample_world {})))
       ''/srv/app/temp/s_0123456789abcdefundefined'' = Some ''x''"
    unfolding r(2) by simp
  have t: "trace (snd (executeCode sample_python_env ''constructor'' ''x'' (sample_world {}))) =
       [WriteFileSync ''/srv/app/temp/s_0123456789abcdefundefined'']"
    unfolding r(3) by (simp add: sample_world_def)
  show ?thesis
    by (intro conjI LANGUAGES_inherited(1) [OF m] r(1) f t)
qed

text \<open>
  C8. For the name \<^verbatim>\<open>toString\<close>, inherited from \<^verbatim>\<open>Object.prototype\<close> as well, the call
  does not end in a response: the TypeError of \<^verbatim>\<open>config.cmd(...)\<close> leaves
  \<^verbatim>\<open>executeCode\<close>, after the source file was written and with no cleanup.
\<close>

theorem executeCode_throws_past_its_boundary:
  "fst (executeCode sample_python_env ''toString'' ''x'' (sample_world {})) =
       Threw (TypeError ''config.cmd is not a function'')
   \<and> (\<forall>resp. fst (executeCode sample_python_env ''toString'' ''x'' (sample_world {})) \<noteq> Returned resp)
   \<and> files (snd (executeCode sample_python_env ''toString'' ''x'' (sample_world {})))
       ''/srv/app/temp/s_0123456789abcdefundefined'' = Some ''x''"
proof -
  have m: "''toString'' \<in> set object_prototype"
    by (simp add: object_prototype_def)
  have w: "filePath_of sample_python_env (Builtin ''toString'') \<notin> wfault (sample_world {})"
    by (simp add: sample_world_def)
  have p: "path_join (TEMP_DIR sample_python_env) (''s_'' @ runId_of sample_python_env @ ''undefined'') =
      ''/srv/app/temp/s_0123456789abcdefundefined''"
    by (simp add: sample_python_env_def sample_TEMP_DIR sample_runId sample_join plain_def sep_def)
  note r = executeCode_inherited_name [OF m w, of "''x''", unfolded p]
  have n: "\<forall>resp. fst (executeCode sample_python_env ''toString'' ''x'' (sample_world {})) \<noteq> Returned resp"
    unfolding r(1) by simp
  have f: "files (snd (executeCode sample_python_env ''toString'' ''x'' (sample_world {})))
       ''/srv/app/temp/s_0123456789abcdefundefined'' = Some ''x''"
    unfolding r(2) by simp
  show ?thesis
    by (intro conjI r(1) n f)
qed


end
